theory Spec2Isabelle
  imports Complex_Main
begin

section \<open>The PM10AHDS power meter driver (PM10AHDS.py)\<close>

text \<open>
  The driver frames commands for a Power-Mate meter, validates the frames it reads back
  and decodes a status frame into engineering units. Byte strings (Python \<open>bytes\<close>) are
  lists of \<open>char\<close>, which is an 8-bit type; text (Python \<open>str\<close>) is a list of Unicode
  code points. Python integers are \<open>int\<close>. Python floats are idealised as \<open>real\<close>: the
  rounding of floating-point arithmetic is not part of the model, its one exception
  (an integer too large for a float) is.
\<close>

type_synonym bytes = "char list"
type_synonym str = "nat list"

subsection \<open>Exceptions, log messages, results\<close>

text \<open>The built-in exceptions that the code can raise and does not catch.\<close>

datatype exn = IndexError | ValueError | OverflowError | UnicodeDecodeError | UnicodeEncodeError

text \<open>
  The \<open>logging.error\<close> messages of the source, one constructor per message:
  \<^item> \<open>NoResponse\<close>: "No response from PowerMate!"
  \<^item> \<open>BadStartMarker\<close>: "Packet Validation - Did not find correct SOM."
  \<^item> \<open>AddressMismatch\<close>: "Packet Validation - Address ... did not match expected address"
  \<^item> \<open>MalformedFrame\<close>: "Packet Validation - Could not extract checksum portion of packet."
  \<^item> \<open>ChecksumMismatch\<close>: "Packet Validation - Calculated Checksum ... does not match supplied checksum"
  \<^item> \<open>UnexpectedResponseType\<close>: "Not a status response!"
  \<^item> \<open>FieldCountMismatch\<close>: "Not enough fields in status response!"
  \<^item> \<open>UnknownEraseResponse\<close>: "Unknown response to Erase request!"
\<close>

datatype logged =
    NoResponse | BadStartMarker | AddressMismatch | MalformedFrame | ChecksumMismatch
  | UnexpectedResponseType | FieldCountMismatch | UnknownEraseResponse

text \<open>
  A call either raises (\<open>Inl\<close>) or returns a Python value together with the error it
  logged on the way, if any (\<open>Inr (value, log)\<close>).
\<close>

type_synonym 'a outcome = "exn + ('a \<times> logged option)"

definition bind_exn :: "exn + 'a \<Rightarrow> ('a \<Rightarrow> exn + 'b) \<Rightarrow> exn + 'b" where
  "bind_exn m f = (case m of Inl e \<Rightarrow> Inl e | Inr x \<Rightarrow> f x)"

subsection \<open>Python built-ins on bytes and text\<close>

text \<open>\<open>sum(list(bytearray(b)))\<close>: the sum of the unsigned byte values.\<close>

definition byte_sum :: "bytes \<Rightarrow> nat" where
  "byte_sum b = sum_list (map of_char b)"

text \<open>\<open>x.split(sep)\<close> for a one-element separator: never empty, empty parts are kept.\<close>

fun split_on :: "'a \<Rightarrow> 'a list \<Rightarrow> 'a list list" where
  "split_on s [] = [[]]"
| "split_on s (x # xs) =
     (if x = s then [] # split_on s xs
      else (case split_on s xs of [] \<Rightarrow> [[x]] | p # ps \<Rightarrow> (x # p) # ps))"

text \<open>\<open>bytes.strip()\<close>: ASCII whitespace (space, tab, LF, VT, FF, CR) removed at both ends.\<close>

definition is_space :: "nat \<Rightarrow> bool" where
  "is_space n \<longleftrightarrow> n = 32 \<or> (9 \<le> n \<and> n \<le> 13)"

definition strip :: "bytes \<Rightarrow> bytes" where
  "strip b = rev (dropWhile (\<lambda>c. is_space (of_char c)) (rev (dropWhile (\<lambda>c. is_space (of_char c)) b)))"

text \<open>
  \<open>bytes.decode()\<close>: strict UTF-8. Overlong forms, surrogates, code points above
  U+10FFFF and truncated sequences raise \<open>UnicodeDecodeError\<close>; the second byte of a
  sequence is a continuation byte in a range narrowed after the lead bytes E0, ED, F0
  and F4.
\<close>

definition cont :: "nat \<Rightarrow> bool" where
  "cont b \<longleftrightarrow> 128 \<le> b \<and> b \<le> 191"

fun utf8 :: "nat list \<Rightarrow> str option" where
  "utf8 [] = Some []"
| "utf8 (b0 # bs) =
     (if b0 < 128 then map_option ((#) b0) (utf8 bs)
      else if 194 \<le> b0 \<and> b0 \<le> 223 then
        (case bs of
           b1 # r \<Rightarrow>
             if cont b1 then map_option ((#) ((b0 - 192) * 64 + (b1 - 128))) (utf8 r)
             else None
         | _ \<Rightarrow> None)
      else if 224 \<le> b0 \<and> b0 \<le> 239 then
        (case bs of
           b1 # b2 # r \<Rightarrow>
             if (if b0 = 224 then 160 else 128) \<le> b1 \<and> b1 \<le> (if b0 = 237 then 159 else 191)
                \<and> cont b2
             then map_option ((#) ((b0 - 224) * 4096 + (b1 - 128) * 64 + (b2 - 128))) (utf8 r)
             else None
         | _ \<Rightarrow> None)
      else if 240 \<le> b0 \<and> b0 \<le> 244 then
        (case bs of
           b1 # b2 # b3 # r \<Rightarrow>
             if (if b0 = 240 then 144 else 128) \<le> b1 \<and> b1 \<le> (if b0 = 244 then 143 else 191)
                \<and> cont b2 \<and> cont b3
             then map_option
                    ((#) ((b0 - 240) * 262144 + (b1 - 128) * 4096 + (b2 - 128) * 64 + (b3 - 128)))
                    (utf8 r)
             else None
         | _ \<Rightarrow> None)
      else None)"

definition decode :: "bytes \<Rightarrow> exn + str" where
  "decode b = (case utf8 (map of_char b) of None \<Rightarrow> Inl UnicodeDecodeError | Some t \<Rightarrow> Inr t)"

text \<open>
  \<open>str.encode()\<close>: UTF-8; a surrogate code point raises \<open>UnicodeEncodeError\<close>. A Python
  \<open>str\<close> holds no code point above U+10FFFF.
\<close>

definition encode_char :: "nat \<Rightarrow> bytes option" where
  "encode_char c =
     (if c < 128 then Some [char_of c]
      else if c < 2048 then Some [char_of (192 + c div 64), char_of (128 + c mod 64)]
      else if 55296 \<le> c \<and> c \<le> 57343 then None
      else if c < 65536 then
        Some [char_of (224 + c div 4096), char_of (128 + c div 64 mod 64), char_of (128 + c mod 64)]
      else
        Some [char_of (240 + c div 262144), char_of (128 + c div 4096 mod 64),
              char_of (128 + c div 64 mod 64), char_of (128 + c mod 64)])"

fun encode :: "str \<Rightarrow> exn + bytes" where
  "encode [] = Inr []"
| "encode (c # cs) =
     (case encode_char c of
        None \<Rightarrow> Inl UnicodeEncodeError
      | Some b \<Rightarrow> bind_exn (encode cs) (\<lambda>r. Inr (b @ r)))"

subsection \<open>Hexadecimal formatting\<close>

text \<open>
  \<open>f"{n:0Wx}".upper().encode()\<close>: the digits of \<open>n\<close> in base 16 with lower-case letters, no
  leading zero; a minus sign for a negative number; zeros inserted after the sign up to the
  width \<open>W\<close>; then the letters made upper-case. The text is ASCII, so \<open>upper\<close> is the ASCII
  case map and \<open>encode\<close> changes nothing.
\<close>

definition hex_char :: "nat \<Rightarrow> char" where
  "hex_char d = ''0123456789abcdef'' ! d"

function hex_digits :: "nat \<Rightarrow> string" where
  "hex_digits n = (if n < 16 then [hex_char n] else hex_digits (n div 16) @ [hex_char (n mod 16)])"
  by pat_completeness auto
termination
  by (relation "measure id") auto

definition format_0x :: "nat \<Rightarrow> int \<Rightarrow> string" where
  "format_0x w n =
     (if n < 0 then
        CHR ''-'' # replicate (w - 1 - length (hex_digits (nat (- n)))) CHR ''0'' @ hex_digits (nat (- n))
      else replicate (w - length (hex_digits (nat n))) CHR ''0'' @ hex_digits (nat n))"

definition upper_char :: "char \<Rightarrow> char" where
  "upper_char c = (if 97 \<le> (of_char c :: nat) \<and> (of_char c :: nat) \<le> 122
                   then char_of ((of_char c :: nat) - 32) else c)"

definition upper :: "string \<Rightarrow> string" where
  "upper s = map upper_char s"

subsection \<open>The driver\<close>

text \<open>
  \<open>__init__\<close>: the address is checked before the port is opened. The only state a driver
  keeps, besides the port, is its address; the functions below take it as their first
  argument (\<open>self.address\<close>).
\<close>

definition init :: "int \<Rightarrow> exn + int" where
  "init address = (if address < 1 \<or> 254 < address then Inl ValueError else Inr address)"

text \<open>A command is passed as \<open>bytes\<close> or as \<open>str\<close>.\<close>

datatype command = Bytes bytes | Str str

definition address_field :: "int \<Rightarrow> bytes" where
  "address_field address = upper (format_0x 2 address)"

definition checksum_field :: "bytes \<Rightarrow> bytes" where
  "checksum_field body = upper (format_0x 4 (int (byte_sum body) mod 65536))"

definition construct_packet :: "int \<Rightarrow> command \<Rightarrow> exn + bytes" where
  "construct_packet address command =
     bind_exn (case command of Bytes b \<Rightarrow> Inr b | Str s \<Rightarrow> encode s) (\<lambda>command.
       let body = address_field address @ command;
           checksum = checksum_field body
       in Inr (''<'' @ body @ '';'' @ checksum @ [CHR 0x0D, CHR 0x0A]))"

definition validate_packet :: "int \<Rightarrow> bytes \<Rightarrow> bool outcome" where
  "validate_packet address packet =
     (case packet of
        [] \<Rightarrow> Inl IndexError
      | som # _ \<Rightarrow>
          if (of_char som :: nat) \<noteq> 62 then Inr (False, Some BadStartMarker)
          else if take 2 (drop 1 packet) \<noteq> address_field address
          then Inr (False, Some AddressMismatch)
          else
            (case split_on CHR '';'' packet of
               body # checksum # _ \<Rightarrow>
                 if checksum \<noteq> checksum_field (drop 1 body)
                 then Inr (False, Some ChecksumMismatch)
                 else Inr (True, None)
             | _ \<Rightarrow> Inr (False, Some MalformedFrame)))"

subsection \<open>\<open>int(text)\<close> and the conversion of an integer to a float\<close>

text \<open>
  CPython's \<open>int\<close> on a \<open>str\<close> first maps every non-ASCII white-space character to a
  space and every non-ASCII decimal digit to its ASCII digit; at the first other non-ASCII
  character the text is cut and ends in \<open>?\<close>. Which characters are digits and spaces is
  read from the Unicode character database, which is part of the interpreter and not of
  this repository: the table is a parameter. So is the interpreter's limit on the number
  of digits of an integer literal (\<open>sys.get_int_max_str_digits()\<close>, 0 for none, 4300 by
  default since Python 3.11).
\<close>

datatype uclass = UDigit nat | USpace | UOther

record pyrt =
  unicode_class :: "nat \<Rightarrow> uclass"
  int_max_str_digits :: nat

fun to_ascii :: "pyrt \<Rightarrow> str \<Rightarrow> nat list" where
  "to_ascii R [] = []"
| "to_ascii R (c # cs) =
     (if c < 128 then c # to_ascii R cs
      else (case unicode_class R c of
              USpace \<Rightarrow> 32 # to_ascii R cs
            | UDigit d \<Rightarrow> (48 + d) # to_ascii R cs
            | UOther \<Rightarrow> [63]))"

definition is_digit :: "nat \<Rightarrow> bool" where
  "is_digit c \<longleftrightarrow> 48 \<le> c \<and> c \<le> 57"

fun decimal :: "nat list \<Rightarrow> int \<Rightarrow> int" where
  "decimal [] acc = acc"
| "decimal (c # cs) acc = decimal cs (10 * acc + int (c - 48))"

fun double_underscore :: "nat list \<Rightarrow> bool" where
  "double_underscore (a # b # cs) = ((a = 95 \<and> b = 95) \<or> double_underscore (b # cs))"
| "double_underscore _ = False"

text \<open>
  The literal itself (\<open>PyLong_FromString\<close>, base 10): white space, an optional sign, digits
  with single underscores between them, white space. Anything else is a \<open>ValueError\<close>.
\<close>

definition py_int :: "pyrt \<Rightarrow> str \<Rightarrow> exn + int" where
  "py_int R text =
     (let s = dropWhile is_space (to_ascii R text);
          neg = (case s of c # _ \<Rightarrow> c = 45 | [] \<Rightarrow> False);
          s = (case s of c # r \<Rightarrow> if c = 43 \<or> c = 45 then r else s | [] \<Rightarrow> s);
          num = takeWhile (\<lambda>c. is_digit c \<or> c = 95) s;
          rest = dropWhile (\<lambda>c. is_digit c \<or> c = 95) s;
          digits = filter is_digit num
      in if num = [] then Inl ValueError
         else if hd num = 95 \<or> last num = 95 \<or> double_underscore num then Inl ValueError
         else if dropWhile is_space rest \<noteq> [] then Inl ValueError
         else if 0 < int_max_str_digits R \<and> 640 < length digits
                 \<and> int_max_str_digits R < length digits
         then Inl ValueError
         else Inr ((if neg then - 1 else 1) * decimal digits 0))"

text \<open>
  An \<open>int\<close> that meets a \<open>float\<close> in \<open>*\<close> or \<open>/\<close> is converted to a float first; one whose
  nearest float would be beyond the largest finite double raises \<open>OverflowError\<close>.
\<close>

definition to_float :: "int \<Rightarrow> exn + real" where
  "to_float n = (if \<bar>n\<bar> < 2 ^ 1024 - 2 ^ 970 then Inr (real_of_int n) else Inl OverflowError)"

subsection \<open>The serial port\<close>

text \<open>
  The port is the pyserial object \<open>self.s\<close>: \<open>write\<close> appends to what was sent,
  \<open>readline\<close> hands out the next line the device answered, or the empty byte string
  when the timeout passes with nothing to read.
\<close>

record serial =
  written :: "bytes list"
  pending :: "bytes list"

definition serial_write :: "bytes \<Rightarrow> serial \<Rightarrow> serial" where
  "serial_write p s = s\<lparr>written := written s @ [p]\<rparr>"

definition readline :: "serial \<Rightarrow> bytes \<times> serial" where
  "readline s = (case pending s of [] \<Rightarrow> ([], s) | l # ls \<Rightarrow> (l, s\<lparr>pending := ls\<rparr>))"

subsection \<open>Status request\<close>

record status =
  runtime_seconds :: int
  energy_kwh :: real
  power_w :: real
  voltage_v :: real
  current_a :: real
  powerfactor_leadlag :: string
  powerfactor :: real
  apparent_power_va :: real

text \<open>Lines 140 to 161 of \<open>request_status\<close>: the fields, in the order the source reads them.\<close>

definition status_output :: "pyrt \<Rightarrow> str list \<Rightarrow> exn + status" where
  "status_output R flds =
     bind_exn (py_int R (flds ! 3)) (\<lambda>runtime.
     bind_exn (py_int R (flds ! 4)) (\<lambda>f4. bind_exn (to_float f4) (\<lambda>energy.
     bind_exn (py_int R (flds ! 5)) (\<lambda>f5. bind_exn (to_float f5) (\<lambda>power.
     bind_exn (py_int R (flds ! 6)) (\<lambda>f6. bind_exn (to_float f6) (\<lambda>voltage.
     bind_exn (py_int R (flds ! 7)) (\<lambda>f7. bind_exn (to_float f7) (\<lambda>current.
     bind_exn (py_int R (flds ! 9)) (\<lambda>f9. bind_exn (to_float f9) (\<lambda>pf.
     bind_exn (py_int R (flds ! 10)) (\<lambda>f10. bind_exn (to_float f10) (\<lambda>va.
       Inr \<lparr>runtime_seconds = runtime,
            energy_kwh = energy * (27777777777778 / 10 ^ 23),
            power_w = power / 1000,
            voltage_v = voltage / 1000000,
            current_a = current / 1000000,
            powerfactor_leadlag = (if flds ! 8 = [49] then ''lag'' else ''lead''),
            powerfactor = pf / 1000000,
            apparent_power_va = va / 1000\<rparr>)))))))))))))"

text \<open>
  The rest of \<open>request_status\<close>, from the line that was read: the checks of lines 118 to
  138, then the fields.
\<close>

definition status_response :: "pyrt \<Rightarrow> int \<Rightarrow> bytes \<Rightarrow> status option outcome" where
  "status_response R address resp =
     (if resp = [] then Inr (None, Some NoResponse)
      else
        let resp = strip resp in
        bind_exn (validate_packet address resp) (\<lambda>(valid, log).
          if valid then
            bind_exn (decode (hd (split_on CHR '';'' resp))) (\<lambda>body.
              if length body \<le> 3 then Inl IndexError
              else if body ! 3 \<noteq> 83 then Inr (None, Some UnexpectedResponseType)
              else
                let flds = split_on 44 body in
                if length flds \<noteq> 11 then Inr (None, Some FieldCountMismatch)
                else bind_exn (status_output R flds) (\<lambda>output. Inr (Some output, None)))
          else Inr (None, log)))"

definition request_status :: "pyrt \<Rightarrow> int \<Rightarrow> serial \<Rightarrow> status option outcome \<times> serial" where
  "request_status R address s =
     (case construct_packet address (Bytes ''S,'') of
        Inl e \<Rightarrow> (Inl e, s)
      | Inr packet \<Rightarrow>
          let (resp, s) = readline (serial_write packet s)
          in (status_response R address resp, s))"

subsection \<open>Erase request\<close>

definition erase_response :: "bytes \<Rightarrow> bool option outcome" where
  "erase_response resp =
     (if resp = [] then Inr (None, Some NoResponse)
      else
        bind_exn (decode (strip resp)) (\<lambda>resp.
          if length resp \<le> 3 then Inl IndexError
          else if resp ! 3 = 69 then Inr (Some True, None)
          else Inr (Some False, Some UnknownEraseResponse)))"

definition request_erase :: "int \<Rightarrow> serial \<Rightarrow> bool option outcome \<times> serial" where
  "request_erase address s =
     (case construct_packet address (Bytes ''E,'') of
        Inl e \<Rightarrow> (Inl e, s)
      | Inr packet \<Rightarrow>
          let (resp, s) = readline (serial_write packet s)
          in (erase_response resp, s))"

subsection \<open>Notions of the specification\<close>

text \<open>
  The specification renders a number as a fixed count of upper-case hexadecimal digits;
  \<open>upper_hex_digit\<close> is one such digit, and the theorems below write the two digits of an
  address and the four digits of a checksum out, most significant digit first.
\<close>

definition upper_hex_digit :: "nat \<Rightarrow> char" where
  "upper_hex_digit d = ''0123456789ABCDEF'' ! d"

definition hex2 :: "nat \<Rightarrow> bytes" where
  "hex2 n = [upper_hex_digit (n div 16), upper_hex_digit (n mod 16)]"

definition hex4 :: "nat \<Rightarrow> bytes" where
  "hex4 n = [upper_hex_digit (n div 4096), upper_hex_digit (n div 256 mod 16),
             upper_hex_digit (n div 16 mod 16), upper_hex_digit (n mod 16)]"

text \<open>
  A packet echoed back in the shape of a response: the start marker \<open><\<close> replaced by
  \<open>>\<close>, the two bytes of the line ending removed.
\<close>

definition as_response :: "bytes \<Rightarrow> bytes" where
  "as_response p = CHR ''>'' # take (length p - 3) (drop 1 p)"

text \<open>
  The round trip of the specification: the packet built for a command, echoed back as a
  response, is handed to the validator of the same driver.
\<close>

definition validate_echo :: "int \<Rightarrow> bytes \<Rightarrow> bool outcome" where
  "validate_echo address c =
     bind_exn (construct_packet address (Bytes c)) (\<lambda>p. validate_packet address (as_response p))"

subsection \<open>A runtime for the examples\<close>

text \<open>
  The examples below are ASCII, where \<open>int\<close> never consults the Unicode table. Their
  runtime classifies no character and has the default digit limit.
\<close>

definition ascii_runtime :: pyrt where
  "ascii_runtime = \<lparr>unicode_class = (\<lambda>_. UOther), int_max_str_digits = 4300\<rparr>"


section \<open>Properties\<close>

subsection \<open>Hexadecimal formatting\<close>

declare hex_digits.simps [simp del]

lemma hex_digits_small: "n < 16 \<Longrightarrow> hex_digits n = [hex_char n]"
  by (subst hex_digits.simps) simp

lemma hex_digits_big: "16 \<le> n \<Longrightarrow> hex_digits n = hex_digits (n div 16) @ [hex_char (n mod 16)]"
  by (subst hex_digits.simps) simp

lemma upper_hex_char: "d < 16 \<Longrightarrow> upper_char (hex_char d) = upper_hex_digit d"
proof -
  have "\<forall>d \<in> set [0..<16]. upper_char (hex_char d) = upper_hex_digit d"
    by code_simp
  then show "d < 16 \<Longrightarrow> upper_char (hex_char d) = upper_hex_digit d" by simp
qed

lemma upper_hex_digit_not_sep: "d < 16 \<Longrightarrow> upper_hex_digit d \<noteq> CHR '';''"
proof -
  have "\<forall>d \<in> set [0..<16]. upper_hex_digit d \<noteq> CHR '';''"
    by code_simp
  then show "d < 16 \<Longrightarrow> upper_hex_digit d \<noteq> CHR '';''" by simp
qed

lemma hex_char_0: "hex_char 0 = CHR ''0''"
  by (simp add: hex_char_def)

text \<open>
  Zero padding to a width that the number fits gives its positional digits, most
  significant first.
\<close>

lemma zfill_hex_digits:
  "0 < w \<Longrightarrow> n < 16 ^ w \<Longrightarrow>
   replicate (w - length (hex_digits n)) CHR ''0'' @ hex_digits n =
   map (\<lambda>i. hex_char (n div 16 ^ i mod 16)) (rev [0..<w])"
proof (induction w arbitrary: n)
  case 0
  then show ?case by simp
next
  case (Suc w)
  show ?case
  proof (cases "w = 0")
    case True
    with Suc.prems show ?thesis by (simp add: hex_digits_small)
  next
    case False
    then have w: "0 < w" by simp
    from Suc.prems have q: "n div 16 < 16 ^ w"
      by (simp add: less_mult_imp_div_less mult.commute)
    have ih: "replicate (w - length (hex_digits (n div 16))) CHR ''0'' @ hex_digits (n div 16) =
              map (\<lambda>i. hex_char (n div 16 div 16 ^ i mod 16)) (rev [0..<w])"
      using Suc.IH [OF w q] .
    have "[0..<Suc w] = 0 # map Suc [0..<w]"
      by (simp only: map_Suc_upt upt_conv_Cons [of 0 "Suc w"] zero_less_Suc)
    then have shift: "map (\<lambda>i. hex_char (n div 16 ^ i mod 16)) (rev [0..<Suc w]) =
                 map (\<lambda>i. hex_char (n div 16 div 16 ^ i mod 16)) (rev [0..<w]) @ [hex_char (n mod 16)]"
      by (simp add: rev_map div_mult2_eq o_def del: upt_Suc)
    show ?thesis
    proof (cases "n < 16")
      case True
      then have d: "hex_digits n = [hex_char n]" "hex_digits (n div 16) = [CHR ''0'']"
        by (simp_all add: hex_digits_small hex_char_0)
      from w have "replicate w CHR ''0'' = replicate (w - 1) CHR ''0'' @ [CHR ''0'']"
        by (cases w) (simp_all add: replicate_append_same)
      with ih d True show ?thesis
        unfolding shift by simp
    next
      case False
      then have d: "hex_digits n = hex_digits (n div 16) @ [hex_char (n mod 16)]"
        by (simp add: hex_digits_big)
      show ?thesis
        unfolding shift ih [symmetric] by (simp add: d)
    qed
  qed
qed

lemma address_field_hex2: "0 \<le> a \<Longrightarrow> a < 256 \<Longrightarrow> address_field a = hex2 (nat a)"
proof -
  assume a: "0 \<le> a" "a < 256"
  then have n: "nat a < 16 ^ 2" by simp
  have r: "rev [0..<2] = [1, 0::nat]" by (simp add: upt_rec)
  have "nat a div 16 < 16" using a by simp
  then have "nat a div 16 mod 16 = nat a div 16" by simp
  then show ?thesis
    using a zfill_hex_digits [OF _ n]
    by (simp add: address_field_def format_0x_def upper_def hex2_def r upper_hex_char)
qed

lemma checksum_field_hex4: "checksum_field b = hex4 (byte_sum b mod 65536)"
proof -
  let ?n = "byte_sum b mod 65536"
  have n: "?n < 16 ^ 4" by simp
  have r: "rev [0..<4] = [3, 2, 1, 0::nat]" by (simp add: upt_rec)
  have i: "int (byte_sum b) mod 65536 = int ?n" by (simp add: zmod_int)
  have "?n div 4096 < 16" by simp
  then have m: "?n div 4096 mod 16 = ?n div 4096" by (rule mod_less)
  show ?thesis
    unfolding checksum_field_def format_0x_def upper_def i
    using zfill_hex_digits [OF _ n]
    by (simp add: hex4_def r upper_hex_char m del: mod_mod_trivial)
qed

lemma hex2_no_sep: "n < 256 \<Longrightarrow> CHR '';'' \<notin> set (hex2 n)"
  by (simp add: hex2_def upper_hex_digit_not_sep [symmetric] less_mult_imp_div_less)

lemma hex4_no_sep: "n < 65536 \<Longrightarrow> CHR '';'' \<notin> set (hex4 n)"
  by (simp add: hex4_def upper_hex_digit_not_sep [symmetric] less_mult_imp_div_less)

lemma length_address_field: "0 \<le> a \<Longrightarrow> a < 256 \<Longrightarrow> length (address_field a) = 2"
  by (simp add: address_field_hex2 hex2_def)

lemma length_checksum_field: "length (checksum_field b) = 4"
  by (simp add: checksum_field_hex4 hex4_def)

lemma checksum_field_no_sep: "CHR '';'' \<notin> set (checksum_field b)"
  by (simp add: checksum_field_hex4 hex4_no_sep)

lemma address_field_no_sep: "0 \<le> a \<Longrightarrow> a < 256 \<Longrightarrow> CHR '';'' \<notin> set (address_field a)"
  by (simp add: address_field_hex2 hex2_no_sep)

subsection \<open>Splitting\<close>

lemma split_on_not_Nil: "split_on s xs \<noteq> []"
  by (induction xs) (auto split: list.splits)

lemma split_on_no_sep: "s \<notin> set xs \<Longrightarrow> split_on s xs = [xs]"
  by (induction xs) auto

lemma split_on_append_sep: "s \<notin> set xs \<Longrightarrow> split_on s (xs @ s # ys) = xs # split_on s ys"
  by (induction xs) auto

lemma split_on_takeWhile:
  "split_on s xs =
     takeWhile (\<lambda>x. x \<noteq> s) xs #
     (case dropWhile (\<lambda>x. x \<noteq> s) xs of [] \<Rightarrow> [] | _ # r \<Rightarrow> split_on s r)"
  by (induction xs) (auto split: list.splits)

text \<open>The number of parts is the number of separators plus one.\<close>

lemma length_split_on: "length (split_on s xs) = Suc (length (filter (\<lambda>x. x = s) xs))"
  by (induction xs) (auto split: list.splits simp: split_on_not_Nil)

lemma dropWhile_sep:
  "s \<in> set p \<Longrightarrow>
   dropWhile (\<lambda>x. x \<noteq> s) p = s # drop (Suc (length (takeWhile (\<lambda>x. x \<noteq> s) p))) p"
  by (induction p) auto

lemma split_on_two:
  "s \<in> set p \<Longrightarrow>
   \<exists>ps. split_on s p =
     takeWhile (\<lambda>x. x \<noteq> s) p #
     takeWhile (\<lambda>x. x \<noteq> s) (drop (Suc (length (takeWhile (\<lambda>x. x \<noteq> s) p))) p) # ps"
  by (subst split_on_takeWhile, simp add: dropWhile_sep, subst split_on_takeWhile, simp)

subsection \<open>Framing\<close>

lemma construct_packet_Bytes:
  "construct_packet a (Bytes c) =
     Inr (''<'' @ address_field a @ c @ '';'' @ checksum_field (address_field a @ c)
            @ [CHR 0x0D, CHR 0x0A])"
  by (simp add: construct_packet_def bind_exn_def Let_def)

text \<open>
  Claim C3. For every address from 1 to 254 and every command given as bytes,
  \<open>construct_packet\<close> returns, without raising, exactly: \<open><\<close>, the address as two
  upper-case hexadecimal digits, the command, \<open>;\<close>, the sum of the unsigned byte values
  of the address digits and of the command, modulo 65536, as four upper-case hexadecimal
  digits, zero padded, and CR LF. The sum is written out here as the sum of the list of
  the byte values. The function is pure: it reads the address and the command only.
\<close>

theorem construct_packet_exact:
  assumes "1 \<le> a" and "a \<le> 254"
  shows "construct_packet a (Bytes c) =
           Inr (''<'' @ hex2 (nat a) @ c @ '';''
                  @ hex4 ((sum_list (map of_char (hex2 (nat a))) + sum_list (map of_char c)) mod 65536)
                  @ [CHR 0x0D, CHR 0x0A])"
  using assms
  by (simp add: construct_packet_Bytes address_field_hex2 checksum_field_hex4 byte_sum_def)

theorem construct_packet_exact_witness:
  "(1::int) \<le> 1 \<and> (1::int) \<le> 254 \<and>
   (sum_list (map of_char (hex2 (nat 1))) + sum_list (map of_char ''S,'')) mod 65536 = (224::nat) \<and>
   hex4 224 = ''00E0'' \<and>
   construct_packet 1 (Bytes ''S,'') = Inr (''<01S,;00E0'' @ [CHR 0x0D, CHR 0x0A])"
  using construct_packet_exact [of 1 "''S,''"]
  by (simp add: hex2_def hex4_def upper_hex_digit_def)

text \<open>
  Claim C10, amended. For every address from 1 to 254 and every command given as bytes the
  address field has exactly 2 bytes, the checksum field exactly 4, and the packet exactly
  \<open>length c + 10\<close>: 1 start byte, 2 address digits, the command, 1 separator, 4 checksum
  digits, 2 line-ending bytes.
\<close>

theorem construct_packet_length:
  assumes "1 \<le> a" and "a \<le> 254"
  shows "length (address_field a) = 2 \<and> length (checksum_field (address_field a @ c)) = 4 \<and>
         map_sum id length (construct_packet a (Bytes c)) = Inr (length c + 10)"
  using assms by (simp add: construct_packet_Bytes length_address_field length_checksum_field)

theorem construct_packet_length_witness:
  "(1::int) \<le> 254 \<and> (254::int) \<le> 254 \<and>
   length (address_field 254) = 2 \<and> length (checksum_field (address_field 254 @ ''E,'')) = 4 \<and>
   map_sum id length (construct_packet 254 (Bytes ''E,'')) = Inr 12"
  using construct_packet_length [of 254 "''E,''"] by simp

text \<open>
  The claim as stated gives \<open>length c + 11\<close>. The status request for address 1 has 12
  bytes, not \<open>2 + 11\<close>.
\<close>

theorem construct_packet_length_counterexample:
  "map_sum id length (construct_packet 1 (Bytes ''S,'')) = Inr 12 \<and>
   map_sum id length (construct_packet 1 (Bytes ''S,'')) \<noteq> Inr (length ''S,'' + 11)"
  by (simp add: construct_packet_Bytes length_address_field length_checksum_field)

subsection \<open>Validation\<close>

lemma as_response_packet:
  "as_response (CHR ''<'' # xs @ [CHR 0x0D, CHR 0x0A]) = CHR ''>'' # xs"
  by (simp add: as_response_def)

text \<open>
  Claim C2, amended. For every address from 1 to 254 and every command that does not
  contain the separator \<open>;\<close>, the packet that \<open>construct_packet\<close> builds, echoed in the
  shape of a response, passes \<open>validate_packet\<close> for the same address: the checksum
  embedded by the one is the checksum recomputed by the other.
\<close>

theorem checksum_round_trip:
  assumes "1 \<le> a" and "a \<le> 254" and "CHR '';'' \<notin> set c"
  shows "validate_echo a c = Inr (True, None)"
proof -
  let ?body = "address_field a @ c"
  have len: "length (address_field a) = 2"
    using assms by (simp add: length_address_field)
  have nosep: "CHR '';'' \<notin> set (CHR ''>'' # ?body)"
    using assms by (simp add: address_field_no_sep)
  have sp: "split_on CHR '';'' ((CHR ''>'' # ?body) @ CHR '';'' # checksum_field ?body)
            = [CHR ''>'' # ?body, checksum_field ?body]"
    using nosep
    by (simp only: split_on_append_sep split_on_no_sep checksum_field_no_sep not_False_eq_True)
  have "validate_packet a (''>'' @ ?body @ '';'' @ checksum_field ?body) = Inr (True, None)"
    using sp len by (simp add: validate_packet_def)
  moreover have "as_response (''<'' @ ?body @ '';'' @ checksum_field ?body @ [CHR 0x0D, CHR 0x0A])
                 = ''>'' @ ?body @ '';'' @ checksum_field ?body"
    using as_response_packet [of "?body @ '';'' @ checksum_field ?body"] by simp
  ultimately show ?thesis
    by (simp add: validate_echo_def construct_packet_Bytes bind_exn_def)
qed

theorem checksum_round_trip_witness:
  "(1::int) \<le> 1 \<and> (1::int) \<le> 254 \<and> CHR '';'' \<notin> set ''S,'' \<and>
   validate_echo 1 ''S,'' = Inr (True, None)"
  using checksum_round_trip [of 1 "''S,''"] by simp

text \<open>
  A command that contains \<open>;\<close> does not make the round trip: the validator takes what
  follows the first \<open>;\<close> for the checksum field, here the empty byte string.
\<close>

theorem checksum_round_trip_counterexample:
  "construct_packet 1 (Bytes '';'') = Inr (''<01;;009C'' @ [CHR 0x0D, CHR 0x0A]) \<and>
   as_response (''<01;;009C'' @ [CHR 0x0D, CHR 0x0A]) = ''>01;;009C'' \<and>
   validate_packet 1 ''>01;;009C'' = Inr (False, Some ChecksumMismatch) \<and>
   validate_echo 1 '';'' = Inr (False, Some ChecksumMismatch)"
  by code_simp

text \<open>
  Claim C6, amended. For every frame that passes the start-marker and address checks:
  with no \<open>;\<close> in it, validation fails with the message of \<open>MalformedFrame\<close>; with one
  \<open>;\<close> or more, the frame is not rejected for their number: the body is what comes before
  the first \<open>;\<close>, the checksum field is what lies between the first \<open>;\<close> and the next one
  (or the end of the frame), and validation succeeds exactly when that field is the
  checksum of the body without its start marker. On success the field is exactly 4 bytes.
\<close>

theorem validate_separator:
  assumes "p \<noteq> []" and "hd p = CHR ''>''" and "take 2 (drop 1 p) = address_field a"
  shows "let body = takeWhile (\<lambda>x. x \<noteq> CHR '';'') p;
             field = takeWhile (\<lambda>x. x \<noteq> CHR '';'') (drop (Suc (length body)) p)
         in validate_packet a p =
              (if CHR '';'' \<notin> set p then Inr (False, Some MalformedFrame)
               else if field = checksum_field (drop 1 body) then Inr (True, None)
               else Inr (False, Some ChecksumMismatch))
            \<and> (validate_packet a p = Inr (True, None) \<longrightarrow> length field = 4)"
proof -
  from assms(1,2) obtain r where p: "p = CHR ''>'' # r" by (cases p) auto
  show ?thesis
  proof (cases "CHR '';'' \<in> set p")
    case False
    then have "split_on CHR '';'' p = [p]" by (rule split_on_no_sep)
    with False assms(3) show ?thesis
      unfolding validate_packet_def Let_def by (simp add: p)
  next
    case True
    from split_on_two [OF True] obtain ps where
      "split_on CHR '';'' p =
         takeWhile (\<lambda>x. x \<noteq> CHR '';'') p #
         takeWhile (\<lambda>x. x \<noteq> CHR '';'')
           (drop (Suc (length (takeWhile (\<lambda>x. x \<noteq> CHR '';'') p))) p) # ps"
      by blast
    with True assms(3) show ?thesis
      unfolding validate_packet_def Let_def
      by (auto simp: p length_checksum_field simp del: split_on.simps)
  qed
qed

theorem validate_separator_witness:
  "''>01E;00A6;00A6'' \<noteq> [] \<and> hd ''>01E;00A6;00A6'' = CHR ''>'' \<and>
   take 2 (drop 1 ''>01E;00A6;00A6'') = address_field 1 \<and>
   validate_packet 1 ''>01E;00A6;00A6'' = Inr (True, None) \<and>
   takeWhile (\<lambda>x. x \<noteq> CHR '';'') (drop (Suc (length ''>01E'')) ''>01E;00A6;00A6'') = ''00A6'' \<and>
   length ''00A6'' = 4"
proof -
  have h: "take 2 (drop 1 ''>01E;00A6;00A6'') = address_field 1" by code_simp
  have v: "validate_packet 1 ''>01E;00A6;00A6'' = Inr (True, None)" by code_simp
  from validate_separator [of "''>01E;00A6;00A6''" 1, OF _ _ h] h v show ?thesis
    by (simp add: Let_def)
qed

text \<open>
  The claim as stated rejects a frame with more than one \<open>;\<close>. This frame has two and is
  accepted.
\<close>

theorem validate_separator_counterexample:
  "validate_packet 1 ''>01S;00B4;junk'' = Inr (True, None) \<and>
   length (filter (\<lambda>x. x = CHR '';'') ''>01S;00B4;junk'') = 2"
  by code_simp

lemma som_iff: "(of_char c :: nat) = 62 \<longleftrightarrow> c = CHR ''>''"
proof -
  have "(of_char CHR ''>'' :: nat) = 62" by simp
  then show ?thesis by (metis of_char_eq_iff)
qed

text \<open>On a frame that is not empty the validator returns, and a wrong first byte is reported.\<close>

lemma validate_packet_returns: "p \<noteq> [] \<Longrightarrow> \<exists>v. validate_packet a p = Inr v"
  by (cases p) (auto simp: validate_packet_def split: list.splits)

lemma validate_packet_bad_start:
  "p \<noteq> [] \<Longrightarrow> hd p \<noteq> CHR ''>'' \<Longrightarrow> validate_packet a p = Inr (False, Some BadStartMarker)"
  by (cases p) (simp_all add: validate_packet_def som_iff)

subsection \<open>Requests\<close>

lemma request_status_pending:
  "fst (request_status R a (s\<lparr>pending := l # rest\<rparr>)) = status_response R a l"
  by (simp add: request_status_def construct_packet_Bytes readline_def serial_write_def)

lemma request_erase_pending:
  "fst (request_erase a (s\<lparr>pending := l # rest\<rparr>)) = erase_response l"
  by (simp add: request_erase_def construct_packet_Bytes readline_def serial_write_def)

text \<open>
  Claim C7, at the input where the code departs from it. \<open>validate_packet\<close> reads
  \<open>packet[0]\<close> first, so the empty frame raises \<open>IndexError\<close> instead of returning a
  failure; \<open>request_status\<close> hands it the empty frame when the line read is only a line
  ending, since it looks for an empty response before it strips.
\<close>

theorem validate_empty_raises:
  "validate_packet a [] = Inl IndexError \<and>
   fst (request_status R a (s\<lparr>pending := [CHR 0x0D, CHR 0x0A] # rest\<rparr>)) = Inl IndexError"
proof -
  have "strip [CHR 0x0D, CHR 0x0A] = []" by code_simp
  then show ?thesis
    by (simp add: request_status_pending status_response_def validate_packet_def bind_exn_def)
qed

subsection \<open>The status example\<close>

lemma example_strip:
  "strip (''>01S,0,0,12627447,89716830841,3200,244535000,32400,1,404360,7927;0C74''
            @ [CHR 0x0D, CHR 0x0A])
   = ''>01S,0,0,12627447,89716830841,3200,244535000,32400,1,404360,7927;0C74''"
  by code_simp

lemma example_valid:
  "validate_packet 1 ''>01S,0,0,12627447,89716830841,3200,244535000,32400,1,404360,7927;0C74''
   = Inr (True, None)"
  by code_simp

lemma example_fields:
  "bind_exn (decode (hd (split_on CHR '';''
      ''>01S,0,0,12627447,89716830841,3200,244535000,32400,1,404360,7927;0C74'')))
     (\<lambda>body. Inr (3 < length body \<and> body ! 3 = 83, split_on 44 body))
   = Inr (True, map (map of_char) [''>01S'', ''0'', ''0'', ''12627447'', ''89716830841'', ''3200'',
                 ''244535000'', ''32400'', ''1'', ''404360'', ''7927''])"
  by code_simp

lemma example_output:
  "status_output R (map (map of_char) [''>01S'', ''0'', ''0'', ''12627447'', ''89716830841'', ''3200'',
                 ''244535000'', ''32400'', ''1'', ''404360'', ''7927''])
   = Inr \<lparr>runtime_seconds = 12627447,
          energy_kwh = 89716830841 * (27777777777778 / 10 ^ 23),
          power_w = 3.2, voltage_v = 244.535, current_a = 0.0324,
          powerfactor_leadlag = ''lag'', powerfactor = 0.40436,
          apparent_power_va = 7.927\<rparr>"
  by (simp add: status_output_def bind_exn_def py_int_def is_space_def is_digit_def to_float_def)

lemma example_response:
  "status_response R 1
     (''>01S,0,0,12627447,89716830841,3200,244535000,32400,1,404360,7927;0C74''
        @ [CHR 0x0D, CHR 0x0A])
   = Inr (Some \<lparr>runtime_seconds = 12627447,
          energy_kwh = 89716830841 * (27777777777778 / 10 ^ 23),
          power_w = 3.2, voltage_v = 244.535, current_a = 0.0324,
          powerfactor_leadlag = ''lag'', powerfactor = 0.40436,
          apparent_power_va = 7.927\<rparr>, None)"
proof -
  let ?frame = "''>01S,0,0,12627447,89716830841,3200,244535000,32400,1,404360,7927;0C74''"
  from example_fields obtain body where
    b: "decode (hd (split_on CHR '';'' ?frame)) = Inr body" "3 < length body" "body ! 3 = 83"
       "split_on 44 body = map (map of_char) [''>01S'', ''0'', ''0'', ''12627447'',
          ''89716830841'', ''3200'', ''244535000'', ''32400'', ''1'', ''404360'', ''7927'']"
    by (auto simp: bind_exn_def split: sum.splits)
  have out: "status_output R (split_on 44 body) =
      Inr \<lparr>runtime_seconds = 12627447,
        energy_kwh = 89716830841 * (27777777777778 / 10 ^ 23),
        power_w = 3.2, voltage_v = 244.535, current_a = 0.0324,
        powerfactor_leadlag = ''lag'', powerfactor = 0.40436,
        apparent_power_va = 7.927\<rparr>"
    by (simp only: b(4) example_output)
  have len: "length (split_on 44 body) = 11"
    by (simp only: b(4)) simp
  show ?thesis
    unfolding status_response_def example_strip Let_def
    using b(2) by (simp add: example_valid b(1,3) out len bind_exn_def del: split_on.simps)
qed

text \<open>
  Claim C1, amended. For the driver with address 1, the status request that reads the
  line \<open>>01S,0,0,12627447,89716830841,3200,244535000,32400,1,404360,7927;0C74\<close> succeeds.
  The fields are counted from the text before the first comma (\<open>>01S\<close>, index 0), so
  index 3 is \<open>12627447\<close>: runtime = 12627447 seconds, energy = 89716830841 times
  2.7777777777778e-10, which is 24.92 kWh to four figures, power = 3.2 W, voltage =
  244.535 V, current = 0.0324 A, lead/lag = "lag", power factor = 0.40436, apparent power =
  7.927 VA. It holds for every Unicode table and digit limit of the runtime, and whatever
  else the port holds.
\<close>

theorem status_example:
  "fst (request_status R 1 (s\<lparr>pending :=
      (''>01S,0,0,12627447,89716830841,3200,244535000,32400,1,404360,7927;0C74''
         @ [CHR 0x0D, CHR 0x0A]) # rest\<rparr>))
   = Inr (Some \<lparr>runtime_seconds = 12627447,
          energy_kwh = 89716830841 * (27777777777778 / 10 ^ 23),
          power_w = 3.2, voltage_v = 244.535, current_a = 0.0324,
          powerfactor_leadlag = ''lag'', powerfactor = 0.40436,
          apparent_power_va = 7.927\<rparr>, None)
   \<and> \<bar>89716830841 * (27777777777778 / 10 ^ 23) - 24.92\<bar> \<le> (0.005 :: real)"
proof
  show "\<bar>89716830841 * (27777777777778 / 10 ^ 23) - 24.92\<bar> \<le> (0.005 :: real)"
    by simp
qed (simp only: request_status_pending example_response)

text \<open>
  The claim as stated gives runtime = 0 seconds and an energy of about 35.07 kWh. The
  code returns 12627447 seconds and an energy below 25 kWh.
\<close>

theorem status_example_counterexample:
  "fst (request_status ascii_runtime 1
          (\<lparr>written = [], pending = []\<rparr>\<lparr>pending :=
             (''>01S,0,0,12627447,89716830841,3200,244535000,32400,1,404360,7927;0C74''
                @ [CHR 0x0D, CHR 0x0A]) # []\<rparr>))
   = Inr (Some \<lparr>runtime_seconds = 12627447,
          energy_kwh = 89716830841 * (27777777777778 / 10 ^ 23),
          power_w = 3.2, voltage_v = 244.535, current_a = 0.0324,
          powerfactor_leadlag = ''lag'', powerfactor = 0.40436,
          apparent_power_va = 7.927\<rparr>, None)
   \<and> (12627447 :: int) \<noteq> 0
   \<and> \<not> \<bar>89716830841 * (27777777777778 / 10 ^ 23) - 35.07\<bar> \<le> (0.005 :: real)"
proof -
  have "(12627447 :: int) \<noteq> 0
        \<and> \<not> \<bar>89716830841 * (27777777777778 / 10 ^ 23) - 35.07\<bar> \<le> (0.005 :: real)"
    by simp
  then show ?thesis
    by (simp only: request_status_pending example_response simp_thms)
qed

subsection \<open>Status fields\<close>

text \<open>
  Claim C8, at the input where the code departs from it. The frame is valid, has type
  \<open>S\<close> and 11 fields; field 3 is \<open>x\<close>. \<open>int\<close> raises \<open>ValueError\<close>, nothing catches it,
  and no failure is returned.
\<close>

theorem status_field_not_integer:
  "validate_packet 1 ''>01S,0,0,x,0,0,0,0,1,0,0;0495'' = Inr (True, None) \<and>
   fst (request_status ascii_runtime 1
          \<lparr>written = [], pending = [''>01S,0,0,x,0,0,0,0,1,0,0;0495'' @ [CHR 0x0D, CHR 0x0A]]\<rparr>)
     = Inl ValueError"
  by code_simp

text \<open>
  The field count. For every line read whose stripped frame is validated and whose body
  decodes to a text with the type character \<open>S\<close> at offset 3: when splitting the text on
  \<open>,\<close> gives a number of fields other than 11, \<open>request_status\<close> logs the field-count
  message and returns \<open>None\<close>, no reading.
\<close>

lemma status_field_count:
  assumes "validate_packet a (strip l) = Inr (True, None)"
    and "decode (hd (split_on CHR '';'' (strip l))) = Inr body"
    and "3 < length body" and "body ! 3 = 83"
    and "length (split_on 44 body) \<noteq> 11"
  shows "fst (request_status R a (s\<lparr>pending := l # rest\<rparr>)) = Inr (None, Some FieldCountMismatch)"
proof -
  have "l \<noteq> []"
    using assms(1) by (auto simp: strip_def validate_packet_def)
  then show ?thesis
    using assms unfolding request_status_pending status_response_def Let_def
    by (simp add: bind_exn_def del: split_on.simps)
qed

lemma status_field_count_example:
  "validate_packet 1 (strip (''>01S,0,0,1,2,3,4,5,1,6;0406'' @ [CHR 0x0D, CHR 0x0A]))
     = Inr (True, None) \<and>
   decode (hd (split_on CHR '';'' (strip (''>01S,0,0,1,2,3,4,5,1,6;0406'' @ [CHR 0x0D, CHR 0x0A]))))
     = Inr (map of_char ''>01S,0,0,1,2,3,4,5,1,6'') \<and>
   3 < length (map of_char ''>01S,0,0,1,2,3,4,5,1,6'' :: nat list) \<and>
   (map of_char ''>01S,0,0,1,2,3,4,5,1,6'' :: nat list) ! 3 = 83 \<and>
   length (split_on 44 (map of_char ''>01S,0,0,1,2,3,4,5,1,6'' :: nat list)) = 10 \<and>
   fst (request_status ascii_runtime 1
          (\<lparr>written = [], pending = []\<rparr>\<lparr>pending :=
             (''>01S,0,0,1,2,3,4,5,1,6;0406'' @ [CHR 0x0D, CHR 0x0A]) # []\<rparr>))
     = Inr (None, Some FieldCountMismatch)"
proof -
  have v: "validate_packet 1 (strip (''>01S,0,0,1,2,3,4,5,1,6;0406'' @ [CHR 0x0D, CHR 0x0A]))
             = Inr (True, None)"
    by code_simp
  have d: "decode (hd (split_on CHR '';''
             (strip (''>01S,0,0,1,2,3,4,5,1,6;0406'' @ [CHR 0x0D, CHR 0x0A]))))
           = Inr (map of_char ''>01S,0,0,1,2,3,4,5,1,6'')"
    by code_simp
  have n: "length (split_on 44 (map of_char ''>01S,0,0,1,2,3,4,5,1,6'' :: nat list)) = 10"
    by code_simp
  have i: "3 < length (map of_char ''>01S,0,0,1,2,3,4,5,1,6'' :: nat list)"
          "(map of_char ''>01S,0,0,1,2,3,4,5,1,6'' :: nat list) ! 3 = 83"
    by simp_all
  have c: "length (split_on 44 (map of_char ''>01S,0,0,1,2,3,4,5,1,6'' :: nat list)) \<noteq> 11"
    by (simp add: n)
  from status_field_count
         [where R = ascii_runtime and s = "\<lparr>written = [], pending = []\<rparr>" and rest = "[]",
          OF v d i c]
  show ?thesis
    using v d n i by blast
qed

text \<open>
  Claim C9, at the input where the code departs from it. The frame is validated for
  address 1, its type byte is \<open>S\<close> and its body has 9 commas, that is 10 fields; the last
  field is the byte FF, which is not UTF-8. \<open>request_status\<close> decodes the body (line
  128) before it counts the fields (line 136): \<open>decode\<close> raises \<open>UnicodeDecodeError\<close>,
  nothing catches it, and no field-count failure is returned.
\<close>

theorem status_body_not_text:
  "validate_packet 1 (''>01S,0,0,1,2,3,4,5,1,'' @ [CHR 0xFF] @ '';04CF'') = Inr (True, None) \<and>
   (''>01S,0,0,1,2,3,4,5,1,'' @ [CHR 0xFF]) ! 3 = CHR ''S'' \<and>
   length (split_on CHR '','' (''>01S,0,0,1,2,3,4,5,1,'' @ [CHR 0xFF])) = 10 \<and>
   fst (request_status ascii_runtime 1
          \<lparr>written = [],
             pending = [''>01S,0,0,1,2,3,4,5,1,'' @ [CHR 0xFF] @ '';04CF'' @ [CHR 0x0D, CHR 0x0A]]\<rparr>)
     = Inl UnicodeDecodeError"
  by code_simp

subsection \<open>Erase\<close>

text \<open>
  Claim C4, amended. For every line read that is not empty and whose stripped bytes decode
  to a text of at least 4 characters: when the character at offset 3 is \<open>E\<close>,
  \<open>request_erase\<close> returns \<open>True\<close>; when it is any other character, \<open>request_erase\<close>
  logs "Unknown response to Erase request!" and returns the plain value \<open>False\<close>.
\<close>

theorem erase_ack:
  assumes "resp \<noteq> []" and "decode (strip resp) = Inr t" and "3 < length t"
  shows "fst (request_erase a (s\<lparr>pending := resp # rest\<rparr>)) =
           (if t ! 3 = 69 then Inr (Some True, None)
            else Inr (Some False, Some UnknownEraseResponse))"
  using assms by (simp add: request_erase_pending erase_response_def bind_exn_def)

theorem erase_ack_witness:
  "''>01E;00A6'' @ [CHR 0x0D, CHR 0x0A] \<noteq> [] \<and>
   decode (strip (''>01E;00A6'' @ [CHR 0x0D, CHR 0x0A])) = Inr [62, 48, 49, 69, 59, 48, 48, 65, 54] \<and>
   3 < length [62, 48, 49, 69, 59, 48, 48, 65, 54 :: nat] \<and>
   fst (request_erase 1
          (\<lparr>written = [], pending = []\<rparr>\<lparr>pending := (''>01E;00A6'' @ [CHR 0x0D, CHR 0x0A]) # []\<rparr>))
     = Inr (Some True, None)"
proof -
  have d: "decode (strip (''>01E;00A6'' @ [CHR 0x0D, CHR 0x0A]))
           = Inr [62, 48, 49, 69, 59, 48, 48, 65, 54]"
    by code_simp
  show ?thesis
    using erase_ack [where a = 1 and s = "\<lparr>written = [], pending = []\<rparr>" and rest = "[]", OF _ d] d
    by simp
qed

text \<open>
  The claim as stated has a failure result and never \<open>False\<close> for a type byte that is not
  \<open>E\<close>. For the type byte \<open>X\<close> the value returned is \<open>False\<close>.
\<close>

theorem erase_ack_counterexample:
  "fst (request_erase 1 \<lparr>written = [], pending = [''>01X;00B9'' @ [CHR 0x0D, CHR 0x0A]]\<rparr>)
     = Inr (Some False, Some UnknownEraseResponse)"
  by code_simp

text \<open>
  Claim C5, at the input where the code departs from it. \<open>request_erase\<close> never calls
  \<open>validate_packet\<close>: a frame for address 2 with a wrong checksum, which the validator of
  the driver with address 1 rejects, is taken as a positive acknowledgment.
\<close>

theorem erase_not_validated:
  "validate_packet 1 ''>02E;0000'' = Inr (False, Some AddressMismatch) \<and>
   fst (request_erase 1 \<lparr>written = [], pending = [''>02E;0000'' @ [CHR 0x0D, CHR 0x0A]]\<rparr>)
     = Inr (Some True, None)"
  by code_simp

end
